theory Spec2Isabelle
  imports Complex_Main "HOL-Library.Sublist"
begin

section \<open>Python values\<close>

text \<open>
  The validator and the extractor of the typhoon safety analyzer work on the values that
  \<^verbatim>\<open>json.loads\<close> produces: \<^verbatim>\<open>None\<close>, booleans, integers, floats, strings, lists and
  dictionaries with string keys. A float is a finite number or one of the three special
  values that \<^verbatim>\<open>json.loads\<close> accepts (\<^verbatim>\<open>Infinity\<close>, \<^verbatim>\<open>-Infinity\<close>, \<^verbatim>\<open>NaN\<close>); only its
  comparisons with \<^verbatim>\<open>0.0\<close> and \<^verbatim>\<open>1.0\<close> matter here, and Python decides them exactly.
  A dictionary is an association list in insertion order, as Python keeps it.
\<close>

datatype pyfloat = Finite rat | PosInf | NegInf | NaN

datatype pyval =
    PyNone
  | PyBool bool
  | PyInt int
  | PyFloat pyfloat
  | PyStr string
  | PyList "pyval list"
  | PyDict "(string \<times> pyval) list"

type_synonym pydict = "(string \<times> pyval) list"

text \<open>The exceptions that the modelled code can raise.\<close>

datatype pyexn = AttributeError | TypeError

text \<open>\<^verbatim>\<open>d.get(k)\<close> is \<^verbatim>\<open>None\<close> and \<^verbatim>\<open>d.get(k, dflt)\<close> is \<^verbatim>\<open>dflt\<close> when the key is absent.\<close>

definition get_or :: "pydict \<Rightarrow> string \<Rightarrow> pyval \<Rightarrow> pyval" where
  "get_or d k dflt = (case map_of d k of Some v \<Rightarrow> v | None \<Rightarrow> dflt)"

definition dict_get :: "pydict \<Rightarrow> string \<Rightarrow> pyval" where
  "dict_get d k = get_or d k PyNone"

text \<open>\<^verbatim>\<open>d[k] = v\<close>: an existing key keeps its position, a new key goes to the end.\<close>

fun dict_set :: "pydict \<Rightarrow> string \<Rightarrow> pyval \<Rightarrow> pydict" where
  "dict_set [] k v = [(k, v)]"
| "dict_set ((k', v') # d) k v = (if k' = k then (k, v) # d else (k', v') # dict_set d k v)"

text \<open>\<^verbatim>\<open>k in d\<close> for a dictionary.\<close>

definition has_key :: "pydict \<Rightarrow> string \<Rightarrow> bool" where
  "has_key d k = (map_of d k \<noteq> None)"

text \<open>
  \<^verbatim>\<open>v in [s1, ..., sn]\<close> for a list of string literals: \<^verbatim>\<open>==\<close> between a string and a value
  of another type is false.
\<close>

fun py_in :: "pyval \<Rightarrow> string list \<Rightarrow> bool" where
  "py_in (PyStr s) xs = (s \<in> set xs)"
| "py_in _ xs = False"

text \<open>\<^verbatim>\<open>isinstance(v, int)\<close>: \<^verbatim>\<open>bool\<close> is a subclass of \<^verbatim>\<open>int\<close>.\<close>

fun isinstance_int :: "pyval \<Rightarrow> bool" where
  "isinstance_int (PyInt n) = True"
| "isinstance_int (PyBool b) = True"
| "isinstance_int _ = False"

fun isinstance_float :: "pyval \<Rightarrow> bool" where
  "isinstance_float (PyFloat x) = True"
| "isinstance_float _ = False"

fun isinstance_dict :: "pyval \<Rightarrow> bool" where
  "isinstance_dict (PyDict d) = True"
| "isinstance_dict _ = False"

fun isinstance_list :: "pyval \<Rightarrow> bool" where
  "isinstance_list (PyList xs) = True"
| "isinstance_list _ = False"

text \<open>\<^verbatim>\<open>value >= 0\<close> on an instance of \<^verbatim>\<open>int\<close> (\<^verbatim>\<open>True\<close> is 1, \<^verbatim>\<open>False\<close> is 0).\<close>

fun ge_zero :: "pyval \<Rightarrow> bool" where
  "ge_zero (PyInt n) = (0 \<le> n)"
| "ge_zero (PyBool b) = True"
| "ge_zero _ = False"

text \<open>\<^verbatim>\<open>0.0 <= v <= 1.0\<close> on an instance of \<^verbatim>\<open>int\<close> or \<^verbatim>\<open>float\<close>.\<close>

fun in_unit_interval :: "pyval \<Rightarrow> bool" where
  "in_unit_interval (PyInt n) = (0 \<le> n \<and> n \<le> 1)"
| "in_unit_interval (PyBool b) = True"
| "in_unit_interval (PyFloat (Finite r)) = (0 \<le> r \<and> r \<le> 1)"
| "in_unit_interval _ = False"

section \<open>The output validator\<close>

definition required_fields :: "string list" where
  "required_fields = [''overall_risk_level'', ''hazards_by_category'', ''risk_summary'',
     ''urgent_actions'', ''summary'', ''confidence_score'']"

definition valid_risk_levels :: "string list" where
  "valid_risk_levels = [''low'', ''medium'', ''high'', ''critical'', ''unknown'']"

definition hazard_categories :: "string list" where
  "hazard_categories = [''flying_objects'', ''structural_damage'', ''elevated_objects'',
     ''tree_hazards'']"

definition get_default_risk_summary :: pyval where
  "get_default_risk_summary = PyDict [(''critical_count'', PyInt 0), (''high_count'', PyInt 0),
     (''medium_count'', PyInt 0), (''low_count'', PyInt 0), (''total_hazards'', PyInt 0)]"

definition get_default_value :: "string \<Rightarrow> pyval" where
  "get_default_value field = get_or
     [(''overall_risk_level'', PyStr ''unknown''),
      (''hazards_by_category'', PyDict []),
      (''risk_summary'', get_default_risk_summary),
      (''summary'', PyStr ''Analysis incomplete''),
      (''urgent_actions'', PyList []),
      (''confidence_score'', PyFloat (Finite 0))] field PyNone"

subsection \<open>Hazard entries\<close>

text \<open>
  Each entry validator calls \<^verbatim>\<open>obj.get\<close>, which raises \<^verbatim>\<open>AttributeError\<close> on every value
  that is not a dictionary.
\<close>

fun validate_flying_object :: "pyval \<Rightarrow> pyexn + pyval" where
  "validate_flying_object (PyDict obj) = Inr (PyDict
     [(''item'', get_or obj ''item'' (PyStr ''Unknown object'')),
      (''description'', get_or obj ''description'' (PyStr ''No description'')),
      (''movement_risk'',
         if py_in (dict_get obj ''movement_risk'') [''high'', ''medium'', ''low'']
         then get_or obj ''movement_risk'' (PyStr ''unknown'') else PyStr ''unknown''),
      (''impact_severity'',
         if py_in (dict_get obj ''impact_severity'') valid_risk_levels
         then get_or obj ''impact_severity'' (PyStr ''unknown'') else PyStr ''unknown''),
      (''overall_risk'',
         if py_in (dict_get obj ''overall_risk'') valid_risk_levels
         then get_or obj ''overall_risk'' (PyStr ''unknown'') else PyStr ''unknown''),
      (''location'', get_or obj ''location'' (PyStr ''Location not specified'')),
      (''recommendation'', get_or obj ''recommendation'' (PyStr ''No recommendation''))])"
| "validate_flying_object _ = Inl AttributeError"

fun validate_structural_damage :: "pyval \<Rightarrow> pyexn + pyval" where
  "validate_structural_damage (PyDict obj) = Inr (PyDict
     [(''item'', get_or obj ''item'' (PyStr ''Unknown structure'')),
      (''description'', get_or obj ''description'' (PyStr ''No description'')),
      (''risk_level'',
         if py_in (dict_get obj ''risk_level'') valid_risk_levels
         then get_or obj ''risk_level'' (PyStr ''unknown'') else PyStr ''unknown''),
      (''location'', get_or obj ''location'' (PyStr ''Location not specified'')),
      (''recommendation'', get_or obj ''recommendation'' (PyStr ''No recommendation''))])"
| "validate_structural_damage _ = Inl AttributeError"

fun validate_elevated_object :: "pyval \<Rightarrow> pyexn + pyval" where
  "validate_elevated_object (PyDict obj) = Inr (PyDict
     [(''item'', get_or obj ''item'' (PyStr ''Unknown object'')),
      (''description'', get_or obj ''description'' (PyStr ''No description'')),
      (''fall_risk'',
         if py_in (dict_get obj ''fall_risk'') [''high'', ''medium'', ''low'']
         then get_or obj ''fall_risk'' (PyStr ''unknown'') else PyStr ''unknown''),
      (''impact_severity'',
         if py_in (dict_get obj ''impact_severity'') valid_risk_levels
         then get_or obj ''impact_severity'' (PyStr ''unknown'') else PyStr ''unknown''),
      (''overall_risk'',
         if py_in (dict_get obj ''overall_risk'') valid_risk_levels
         then get_or obj ''overall_risk'' (PyStr ''unknown'') else PyStr ''unknown''),
      (''location'', get_or obj ''location'' (PyStr ''Location not specified'')),
      (''recommendation'', get_or obj ''recommendation'' (PyStr ''No recommendation''))])"
| "validate_elevated_object _ = Inl AttributeError"

fun validate_tree_hazard :: "pyval \<Rightarrow> pyexn + pyval" where
  "validate_tree_hazard (PyDict obj) = Inr (PyDict
     [(''description'', get_or obj ''description'' (PyStr ''No description'')),
      (''risk_level'',
         if py_in (dict_get obj ''risk_level'') valid_risk_levels
         then get_or obj ''risk_level'' (PyStr ''unknown'') else PyStr ''unknown''),
      (''location'', get_or obj ''location'' (PyStr ''Location not specified'')),
      (''recommendation'', get_or obj ''recommendation'' (PyStr ''No recommendation''))])"
| "validate_tree_hazard _ = Inl AttributeError"

subsection \<open>Hazard categories\<close>

text \<open>A list comprehension over the entries: the first exception ends it.\<close>

fun map_entries :: "(pyval \<Rightarrow> pyexn + pyval) \<Rightarrow> pyval list \<Rightarrow> pyexn + pyval list" where
  "map_entries f [] = Inr []"
| "map_entries f (x # xs) =
     (case f x of
        Inl e \<Rightarrow> Inl e
      | Inr y \<Rightarrow> (case map_entries f xs of Inl e \<Rightarrow> Inl e | Inr ys \<Rightarrow> Inr (y # ys)))"

text \<open>
  \<^verbatim>\<open>category_data = hazards.get(category, [])\<close>, replaced by \<^verbatim>\<open>[]\<close> when it is not a list.
\<close>

definition category_data :: "pydict \<Rightarrow> string \<Rightarrow> pyval list" where
  "category_data hazards category =
     (case get_or hazards category (PyList []) of PyList xs \<Rightarrow> xs | _ \<Rightarrow> [])"

text \<open>The \<^verbatim>\<open>if\<close>/\<^verbatim>\<open>elif\<close> chain that picks the entry validator of a category.\<close>

definition entry_validator :: "string \<Rightarrow> (pyval \<Rightarrow> pyexn + pyval) option" where
  "entry_validator category =
     (if category = ''flying_objects'' then Some validate_flying_object
      else if category = ''structural_damage'' then Some validate_structural_damage
      else if category = ''elevated_objects'' then Some validate_elevated_object
      else if category = ''tree_hazards'' then Some validate_tree_hazard
      else None)"

fun hazard_categories_loop :: "string list \<Rightarrow> pydict \<Rightarrow> pydict \<Rightarrow> pyexn + pydict" where
  "hazard_categories_loop [] hazards validated_hazards = Inr validated_hazards"
| "hazard_categories_loop (category # rest) hazards validated_hazards =
     (case entry_validator category of
        None \<Rightarrow> hazard_categories_loop rest hazards validated_hazards
      | Some f \<Rightarrow>
          (case map_entries f (category_data hazards category) of
             Inl e \<Rightarrow> Inl e
           | Inr ys \<Rightarrow> hazard_categories_loop rest hazards
                        (dict_set validated_hazards category (PyList ys))))"

definition validate_hazard_categories :: "pydict \<Rightarrow> pyexn + pydict" where
  "validate_hazard_categories hazards = hazard_categories_loop hazard_categories hazards []"

subsection \<open>Risk summary\<close>

definition risk_summary_keys :: "string list" where
  "risk_summary_keys = [''critical_count'', ''high_count'', ''medium_count'', ''low_count'',
     ''total_hazards'']"

fun risk_summary_loop :: "string list \<Rightarrow> pydict \<Rightarrow> pydict \<Rightarrow> pydict" where
  "risk_summary_loop [] summary validated_summary = validated_summary"
| "risk_summary_loop (key # rest) summary validated_summary =
     (let value = get_or summary key (PyInt 0)
      in risk_summary_loop rest summary
           (dict_set validated_summary key
              (if isinstance_int value \<and> ge_zero value then value else PyInt 0)))"

definition validate_risk_summary :: "pydict \<Rightarrow> pydict" where
  "validate_risk_summary summary = risk_summary_loop risk_summary_keys summary []"

subsection \<open>The validator\<close>

text \<open>
  The state of \<^verbatim>\<open>validate\<close> is the dictionary \<^verbatim>\<open>validated\<close> and the list
  \<^verbatim>\<open>validation_errors\<close>. The parameter \<open>str_of\<close> stands for Python's \<^verbatim>\<open>str()\<close>, which the
  f-strings of the two ``Invalid ...'' messages apply to the offending value.
\<close>

type_synonym vstate = "pydict \<times> string list"

fun check_required :: "string list \<Rightarrow> vstate \<Rightarrow> vstate" where
  "check_required [] st = st"
| "check_required (field # rest) (validated, errors) =
     (if \<not> has_key validated field
      then check_required rest
             (dict_set validated field (get_default_value field),
              errors @ [''Missing required field: '' @ field])
      else check_required rest (validated, errors))"

definition check_risk_level :: "(pyval \<Rightarrow> string) \<Rightarrow> vstate \<Rightarrow> vstate" where
  "check_risk_level str_of st =
     (case st of (validated, errors) \<Rightarrow>
        if \<not> py_in (dict_get validated ''overall_risk_level'') valid_risk_levels
        then (dict_set validated ''overall_risk_level'' (PyStr ''unknown''),
              errors @ [''Invalid overall_risk_level: ''
                         @ str_of (dict_get validated ''overall_risk_level'')])
        else (validated, errors))"

definition check_hazards :: "vstate \<Rightarrow> pyexn + vstate" where
  "check_hazards st =
     (case st of (validated, errors) \<Rightarrow>
        (case dict_get validated ''hazards_by_category'' of
           PyDict hazards \<Rightarrow>
             (case validate_hazard_categories hazards of
                Inl e \<Rightarrow> Inl e
              | Inr vh \<Rightarrow> Inr (dict_set validated ''hazards_by_category'' (PyDict vh), errors))
         | _ \<Rightarrow> Inr (dict_set validated ''hazards_by_category'' (PyDict []),
                     errors @ [''hazards_by_category must be a dictionary''])))"

definition check_risk_summary :: "vstate \<Rightarrow> vstate" where
  "check_risk_summary st =
     (case st of (validated, errors) \<Rightarrow>
        (case dict_get validated ''risk_summary'' of
           PyDict summary \<Rightarrow>
             (dict_set validated ''risk_summary'' (PyDict (validate_risk_summary summary)),
              errors)
         | _ \<Rightarrow> (dict_set validated ''risk_summary'' get_default_risk_summary,
                 errors @ [''risk_summary must be a dictionary''])))"

definition check_confidence :: "(pyval \<Rightarrow> string) \<Rightarrow> vstate \<Rightarrow> vstate" where
  "check_confidence str_of st =
     (case st of (validated, errors) \<Rightarrow>
        (let confidence = get_or validated ''confidence_score'' (PyFloat (Finite 0))
         in if \<not> (isinstance_int confidence \<or> isinstance_float confidence)
               \<or> \<not> in_unit_interval confidence
            then (dict_set validated ''confidence_score'' (PyFloat (Finite 0)),
                  errors @ [''Invalid confidence_score: '' @ str_of confidence])
            else (validated, errors)))"

definition check_urgent_actions :: "vstate \<Rightarrow> vstate" where
  "check_urgent_actions st =
     (case st of (validated, errors) \<Rightarrow>
        if \<not> isinstance_list (dict_get validated ''urgent_actions'')
        then (dict_set validated ''urgent_actions'' (PyList []),
              errors @ [''urgent_actions must be a list''])
        else (validated, errors))"

definition add_validation :: "vstate \<Rightarrow> pyval" where
  "add_validation st =
     (case st of (validated, errors) \<Rightarrow>
        PyDict (dict_set validated ''validation''
          (PyDict [(''errors'', PyList (map PyStr errors)),
                   (''is_valid'', PyBool (length errors = 0))])))"

definition validate_dict :: "(pyval \<Rightarrow> string) \<Rightarrow> pydict \<Rightarrow> pyexn + pyval" where
  "validate_dict str_of analysis_result =
     (case check_hazards
             (check_risk_level str_of (check_required required_fields (analysis_result, []))) of
        Inl e \<Rightarrow> Inl e
      | Inr st \<Rightarrow>
          Inr (add_validation
                 (check_urgent_actions (check_confidence str_of (check_risk_summary st)))))"

text \<open>
  \<^verbatim>\<open>validate\<close> starts with \<^verbatim>\<open>analysis_result.copy()\<close>, which only dictionaries and lists
  have. On a list the loop over the required fields tests membership among the elements;
  the first field that is not an element is assigned with a string index, a
  \<^verbatim>\<open>TypeError\<close>; if all six are elements, the next statement calls \<^verbatim>\<open>validated.get\<close>, an
  \<^verbatim>\<open>AttributeError\<close>.
\<close>

fun validate :: "(pyval \<Rightarrow> string) \<Rightarrow> pyval \<Rightarrow> pyexn + pyval" where
  "validate str_of (PyDict analysis_result) = validate_dict str_of analysis_result"
| "validate str_of (PyList xs) =
     (if list_all (\<lambda>field. PyStr field \<in> set xs) required_fields
      then Inl AttributeError else Inl TypeError)"
| "validate str_of _ = Inl AttributeError"

section \<open>The response extractor\<close>

text \<open>\<^verbatim>\<open>str.find\<close> and \<^verbatim>\<open>str.rfind\<close> of one character: the index, or \<open>-1\<close>.\<close>

fun find_from :: "char \<Rightarrow> string \<Rightarrow> int \<Rightarrow> int" where
  "find_from c [] i = - 1"
| "find_from c (x # xs) i = (if x = c then i else find_from c xs (i + 1))"

definition py_find :: "string \<Rightarrow> char \<Rightarrow> int" where
  "py_find s c = find_from c s 0"







section \<open>Notions used in the statements\<close>

definition entries_are_mappings :: "pydict \<Rightarrow> bool" where
  "entries_are_mappings d =
     (case map_of d ''hazards_by_category'' of
        Some (PyDict hazards) \<Rightarrow>
          list_all (\<lambda>category. list_all isinstance_dict (category_data hazards category))
            hazard_categories
      | _ \<Rightarrow> True)"

definition validated_entries :: "string \<Rightarrow> pydict \<Rightarrow> pyval" where
  "validated_entries category hazards =
     PyList (map (projr \<circ> the (entry_validator category)) (category_data hazards category))"

definition validated_hazards :: "pydict \<Rightarrow> pydict" where
  "validated_hazards hazards = map (\<lambda>category. (category, validated_entries category hazards)) hazard_categories"

definition hazards_step :: "vstate \<Rightarrow> vstate" where
  "hazards_step st =
     (case dict_get (fst st) ''hazards_by_category'' of
        PyDict hazards \<Rightarrow>
          (dict_set (fst st) ''hazards_by_category'' (PyDict (validated_hazards hazards)), snd st)
      | _ \<Rightarrow> (dict_set (fst st) ''hazards_by_category'' (PyDict []),
              snd st @ [''hazards_by_category must be a dictionary'']))"

definition report_state :: "(pyval \<Rightarrow> string) \<Rightarrow> pydict \<Rightarrow> vstate" where
  "report_state str_of d =
     check_urgent_actions (check_confidence str_of (check_risk_summary (hazards_step
       (check_risk_level str_of (check_required required_fields (d, []))))))"























text \<open>
  Scenario D of the specification: the text given to the extractor, the JSON object
  embedded in it, the value that \<^verbatim>\<open>json.loads\<close> returns for that object, and the report.
  \<open>json_loads_scenario\<close> is a \<^verbatim>\<open>json.loads\<close> that knows this one object.
\<close>

definition scenario_d_json :: string where
  "scenario_d_json = ''{\"overall_risk_level\":\"high\",\"hazards_by_category\":{},\"risk_summary\":{\"critical_count\":2,\"high_count\":-1,\"total_hazards\":2},\"urgent_actions\":[\"evacuate\"],\"summary\":\"bad weather\",\"confidence_score\":0.9}''"

definition scenario_d_text :: string where
  "scenario_d_text = ''prefix '' @ scenario_d_json @ '' suffix''"







section \<open>The validator, step by step\<close>

lemma map_of_dict_set: "map_of (dict_set d k v) k' = (if k' = k then Some v else map_of d k')"
  by (induction d k v rule: dict_set.induct) auto

lemma has_key_dict_set: "has_key (dict_set d k v) k' = (k' = k \<or> has_key d k')"
  by (simp add: has_key_def map_of_dict_set)

lemma keys_dict_set: "has_key d k \<Longrightarrow> map fst (dict_set d k v) = map fst d"
  unfolding has_key_def by (induction d k v rule: dict_set.induct) (auto split: if_splits)

lemma keys_dict_set_new: "\<not> has_key d k \<Longrightarrow> map fst (dict_set d k v) = map fst d @ [k]"
  unfolding has_key_def by (induction d k v rule: dict_set.induct) (auto split: if_splits)

lemma has_key_iff: "has_key d k = (k \<in> set (map fst d))"
  by (simp add: has_key_def map_of_eq_None_iff)

lemma distinct_dict_set: "distinct (map fst d) \<Longrightarrow> distinct (map fst (dict_set d k v))"
  by (cases "has_key d k") (auto simp: keys_dict_set keys_dict_set_new has_key_iff)

lemma filter_absent_dict_set:
  "f \<notin> set fs \<Longrightarrow>
     filter (\<lambda>g. \<not> has_key (dict_set d f v) g) fs = filter (\<lambda>g. \<not> has_key d g) fs"
  by (rule filter_cong) (auto simp: has_key_dict_set)

lemma check_required_lookup:
  "distinct fs \<Longrightarrow> map_of (fst (check_required fs (d, es))) k =
     (if k \<in> set fs \<and> \<not> has_key d k then Some (get_default_value k) else map_of d k)"
proof (induction fs arbitrary: d es)
  case Nil
  then show ?case by simp
next
  case (Cons f fs)
  show ?case
  proof (cases "has_key d f")
    case True
    then show ?thesis using Cons by (cases "k = f") simp_all
  next
    case False
    then show ?thesis using Cons
      by (cases "k = f") (simp_all add: has_key_dict_set map_of_dict_set)
  qed
qed


lemma check_required_keys:
  "distinct fs \<Longrightarrow> map fst (fst (check_required fs (d, es))) =
     map fst d @ filter (\<lambda>f. \<not> has_key d f) fs"
proof (induction fs arbitrary: d es)
  case Nil
  then show ?case by simp
next
  case (Cons f fs)
  then show ?case by (simp add: filter_absent_dict_set keys_dict_set_new)
qed

lemma map_entries_ok:
  "(\<And>x. x \<in> set xs \<Longrightarrow> \<exists>y. f x = Inr y) \<Longrightarrow> map_entries f xs = Inr (map (projr \<circ> f) xs)"
proof (induction xs)
  case Nil
  then show ?case by simp
next
  case (Cons x xs)
  obtain y where y: "f x = Inr y" using Cons.prems[of x] by auto
  have "map_entries f xs = Inr (map (projr \<circ> f) xs)" using Cons by simp
  then show ?case using y by simp
qed

lemma entry_validators_cases:
  "validate_flying_object x = (if isinstance_dict x then Inr (projr (validate_flying_object x)) else Inl AttributeError)"
  "validate_structural_damage x = (if isinstance_dict x then Inr (projr (validate_structural_damage x)) else Inl AttributeError)"
  "validate_elevated_object x = (if isinstance_dict x then Inr (projr (validate_elevated_object x)) else Inl AttributeError)"
  "validate_tree_hazard x = (if isinstance_dict x then Inr (projr (validate_tree_hazard x)) else Inl AttributeError)"
  by (cases x; simp)+

lemma map_entries_cases:
  assumes "\<And>x. f x = (if isinstance_dict x then Inr (projr (f x)) else Inl AttributeError)"
  shows "map_entries f xs =
    (if list_all isinstance_dict xs then Inr (map (projr \<circ> f) xs) else Inl AttributeError)"
proof (induction xs)
  case Nil
  then show ?case by simp
next
  case (Cons x xs)
  show ?case
  proof (cases "isinstance_dict x")
    case True
    then obtain y where "f x = Inr y" using assms[of x] by simp
    then show ?thesis using Cons True by simp
  next
    case False
    then have "f x = Inl AttributeError" using assms[of x] by simp
    then show ?thesis using False by simp
  qed
qed

lemmas map_entries_validators =
  map_entries_cases[of validate_flying_object, OF entry_validators_cases(1)]
  map_entries_cases[of validate_structural_damage, OF entry_validators_cases(2)]
  map_entries_cases[of validate_elevated_object, OF entry_validators_cases(3)]
  map_entries_cases[of validate_tree_hazard, OF entry_validators_cases(4)]

lemma validate_hazard_categories_cases:
  "validate_hazard_categories h =
     (if list_all (\<lambda>c. list_all isinstance_dict (category_data h c)) hazard_categories
      then Inr (validated_hazards h) else Inl AttributeError)"
  by (simp add: validate_hazard_categories_def hazard_categories_def entry_validator_def
      map_entries_validators validated_hazards_def validated_entries_def)

lemma distinct_required_fields: "distinct required_fields"
  by (simp add: required_fields_def)

lemma check_hazards_cases:
  "check_hazards st =
     (case dict_get (fst st) ''hazards_by_category'' of
        PyDict h \<Rightarrow>
          if list_all (\<lambda>c. list_all isinstance_dict (category_data h c)) hazard_categories
          then Inr (hazards_step st) else Inl AttributeError
      | _ \<Rightarrow> Inr (hazards_step st))"
  by (cases st)
     (simp add: check_hazards_def hazards_step_def validate_hazard_categories_cases
        split: pyval.splits)

lemma lookup_check_risk_level:
  "map_of (fst (check_risk_level f st)) k =
     (if k = ''overall_risk_level''
         \<and> \<not> py_in (dict_get (fst st) ''overall_risk_level'') valid_risk_levels
      then Some (PyStr ''unknown'') else map_of (fst st) k)"
  by (cases st) (simp add: check_risk_level_def map_of_dict_set)










lemma category_data_empty: "category_data [] c = []"
  by (simp add: category_data_def get_or_def)

lemma validate_dict_cases:
  "validate_dict str_of d =
     (if entries_are_mappings d then Inr (add_validation (report_state str_of d))
      else Inl AttributeError)"
proof -
  let ?s2 = "check_risk_level str_of (check_required required_fields (d, []))"
  have hz: "map_of (fst ?s2) ''hazards_by_category'' =
      (if has_key d ''hazards_by_category'' then map_of d ''hazards_by_category''
       else Some (PyDict []))"
    by (simp add: lookup_check_risk_level check_required_lookup distinct_required_fields)
       (simp add: required_fields_def get_default_value_def get_or_def)
  show ?thesis
  proof (cases "has_key d ''hazards_by_category''")
    case True
    then obtain v where v: "map_of d ''hazards_by_category'' = Some v"
      by (auto simp: has_key_def)
    then have "dict_get (fst ?s2) ''hazards_by_category'' = v"
      using hz True by (simp add: dict_get_def get_or_def)
    then show ?thesis using v
      by (simp add: validate_dict_def check_hazards_cases report_state_def
          entries_are_mappings_def split: pyval.splits)
  next
    case False
    then have none: "map_of d ''hazards_by_category'' = None"
      by (simp add: has_key_def)
    have "dict_get (fst ?s2) ''hazards_by_category'' = PyDict []"
      using hz False by (simp add: dict_get_def get_or_def)
    then show ?thesis using none
      by (simp add: validate_dict_def check_hazards_cases report_state_def
          entries_are_mappings_def category_data_empty list_all_iff)
  qed
qed

















lemma py_in_unknown: "py_in (PyStr ''unknown'') valid_risk_levels"
  by (simp add: valid_risk_levels_def)



lemma validate_raises:
  "\<not> entries_are_mappings d \<Longrightarrow> validate str_of (PyDict d) = Inl AttributeError"
  by (simp add: validate_dict_cases)


































lemma scenario_d_indices:
  "py_find scenario_d_text CHR ''{'' = 7"
  by (simp add: scenario_d_text_def scenario_d_json_def py_find_def)














section \<open>The empty report\<close>

text \<open>
  Claim C3. On the empty dictionary \<^verbatim>\<open>{}\<close>, \<^verbatim>\<open>validate\<close> returns the report with
  \<^verbatim>\<open>overall_risk_level\<close> \<^verbatim>\<open>"unknown"\<close>, the four hazard categories empty, every count of
  \<^verbatim>\<open>risk_summary\<close> zero, \<^verbatim>\<open>confidence_score\<close> 0.0, \<^verbatim>\<open>summary\<close> \<^verbatim>\<open>"Analysis incomplete"\<close>,
  \<^verbatim>\<open>urgent_actions\<close> empty, and a validation record whose errors are exactly the six
  messages \<^verbatim>\<open>"Missing required field: <name>"\<close> in the order of the required fields and
  whose \<^verbatim>\<open>is_valid\<close> is false.
\<close>

theorem validate_empty_dict:
  "validate str_of (PyDict []) = Inr (PyDict
     [(''overall_risk_level'', PyStr ''unknown''),
      (''hazards_by_category'', PyDict
         [(''flying_objects'', PyList []), (''structural_damage'', PyList []),
          (''elevated_objects'', PyList []), (''tree_hazards'', PyList [])]),
      (''risk_summary'', PyDict
         [(''critical_count'', PyInt 0), (''high_count'', PyInt 0), (''medium_count'', PyInt 0),
          (''low_count'', PyInt 0), (''total_hazards'', PyInt 0)]),
      (''urgent_actions'', PyList []),
      (''summary'', PyStr ''Analysis incomplete''),
      (''confidence_score'', PyFloat (Finite 0)),
      (''validation'', PyDict
         [(''errors'', PyList
             [PyStr ''Missing required field: overall_risk_level'',
              PyStr ''Missing required field: hazards_by_category'',
              PyStr ''Missing required field: risk_summary'',
              PyStr ''Missing required field: urgent_actions'',
              PyStr ''Missing required field: summary'',
              PyStr ''Missing required field: confidence_score'']),
          (''is_valid'', PyBool False)])])"
  by (simp add: validate_dict_def required_fields_def has_key_def get_default_value_def
      get_or_def dict_get_def check_risk_level_def valid_risk_levels_def check_hazards_def
      validate_hazard_categories_def hazard_categories_def entry_validator_def
      category_data_def check_risk_summary_def get_default_risk_summary_def
      validate_risk_summary_def risk_summary_keys_def check_confidence_def
      check_urgent_actions_def add_validation_def Let_def)
section \<open>When the validator returns\<close>




section \<open>The four hazard categories\<close>




section \<open>The fallback of the extractor\<close>




section \<open>Scenario D and the counts of the risk summary\<close>



section \<open>Keys that the validator does not know\<close>




section \<open>Risk levels stay inside their enumerations\<close>



section \<open>The order of the recorded errors\<close>



section \<open>A boolean confidence score\<close>



end
